theory Spec2Isabelle
  imports Complex_Main
begin

section \<open>Types (types.ts) and constants (constants.ts)\<close>

text \<open>
  \<^verbatim>\<open>ClusterConfig\<close> of types.ts. Two interfaces of the program share the field names
  \<^verbatim>\<open>id\<close>, \<^verbatim>\<open>ip\<close>, \<^verbatim>\<open>type\<close>, ..., so the fields of each record carry the record's name
  as a prefix.
\<close>

datatype ClusterType = PE | PC

datatype ApiVersion = V2_0 | V4_0

record ClusterConfig =
  cluster_id :: string
  cluster_name :: string
  cluster_ip :: string
  cluster_username :: string
  cluster_password :: string
  cluster_isVerified :: bool
  cluster_type :: ClusterType
  cluster_apiVersion :: ApiVersion

datatype Category = VM | Hardware | Performance | Resources

record ColumnDefinition =
  key :: string
  label :: string

text \<open>
  A cell of a \<^verbatim>\<open>DataRow\<close>: a string, a number or a boolean; \<^verbatim>\<open>JNull\<close> is JSON's null,
  which the sort comparator tests for. A finite JavaScript number is a rational, so
  numbers are \<^typ>\<open>rat\<close>. A row is an object indexed by strings: a key that is
  missing reads as \<^verbatim>\<open>undefined\<close>, here \<^term>\<open>None\<close>.
\<close>

datatype js_value = JString string | JNumber rat | JBoolean bool | JNull

type_synonym DataRow = "string \<rightharpoonup> js_value"

definition CATEGORIES :: "Category list" where
  "CATEGORIES = [VM, Hardware, Performance, Resources]"

definition col :: "string \<Rightarrow> string \<Rightarrow> ColumnDefinition" where
  "col k l = \<lparr>key = k, label = l\<rparr>"

fun FIELD_DEFINITIONS :: "Category \<Rightarrow> ColumnDefinition list" where
  "FIELD_DEFINITIONS VM =
     [col ''clusterName'' ''Cluster Name'', col ''name'' ''VM Name'', col ''uuid'' ''UUID'',
      col ''powerState'' ''Power State'', col ''macAddress'' ''MAC Address'',
      col ''ipAddresses'' ''IP Addresses'', col ''vDisk'' ''vDisk'',
      col ''numVcpus'' ''vCPUs'', col ''memoryMb'' ''Memory (MB)'']"
| "FIELD_DEFINITIONS Hardware =
     [col ''hostName'' ''Host Name'', col ''serial'' ''Serial'', col ''model'' ''Model'',
      col ''cpuModel'' ''CPU Model'', col ''numCores'' ''Cores'',
      col ''memoryCapacity'' ''Memory (GB)'', col ''blockSerial'' ''Block Serial'',
      col ''disk'' ''Disk'', col ''diskModel'' ''Disk Model'']"
| "FIELD_DEFINITIONS Performance =
     [col ''entityName'' ''Entity Name'', col ''iops'' ''IOPS'',
      col ''latency'' ''Latency (ms)'', col ''bandwidth'' ''Bandwidth'',
      col ''cpuUsage'' ''CPU Usage (%)'', col ''memoryUsage'' ''Memory Usage (%)'']"
| "FIELD_DEFINITIONS Resources =
     [col ''hostName'' ''Host name'', col ''vmCount'' ''VM Count'',
      col ''numaOver'' ''NUMA over'', col ''metric1'' ''Metric 1'',
      col ''metric2'' ''Metric 2'', col ''metric3'' ''Metric 3'',
      col ''metric4'' ''Metric 4'', col ''result'' ''Result'']"

fun DEFAULT_FIELDS :: "Category \<Rightarrow> string list" where
  "DEFAULT_FIELDS VM = [''clusterName'', ''name'', ''powerState'']"
| "DEFAULT_FIELDS Hardware =
     [''hostName'', ''serial'', ''model'', ''cpuModel'', ''numCores'', ''memoryCapacity'', ''disk'']"
| "DEFAULT_FIELDS Performance =
     [''entityName'', ''iops'', ''bandwidth'', ''latency'', ''cpuUsage'', ''memoryUsage'']"
| "DEFAULT_FIELDS Resources =
     [''hostName'', ''vmCount'', ''numaOver'', ''metric1'', ''metric2'', ''metric3'',
      ''metric4'', ''result'']"

text \<open>The category as the string the program writes into file names and requests.\<close>

fun category_name :: "Category \<Rightarrow> string" where
  "category_name VM = ''VM''"
| "category_name Hardware = ''Hardware''"
| "category_name Performance = ''Performance''"
| "category_name Resources = ''Resources''"

section \<open>JavaScript values\<close>

text \<open>Truthiness of a value read from an object (\<^verbatim>\<open>undefined\<close> and null are falsy).\<close>

fun truthy :: "js_value option \<Rightarrow> bool" where
  "truthy None = False"
| "truthy (Some JNull) = False"
| "truthy (Some (JString s)) = (s \<noteq> [])"
| "truthy (Some (JNumber n)) = (n \<noteq> 0)"
| "truthy (Some (JBoolean b)) = b"

text \<open>\<^verbatim>\<open>v == null\<close>: true of null and of \<^verbatim>\<open>undefined\<close> only.\<close>

fun is_nullish :: "js_value option \<Rightarrow> bool" where
  "is_nullish None = True"
| "is_nullish (Some JNull) = True"
| "is_nullish (Some v) = False"

text \<open>
  What the program takes from the JavaScript runtime and does not define itself: the
  locale's string comparison, Unicode lower-casing, the decimal rendering of a number
  and \<^verbatim>\<open>Array.prototype.sort\<close>.
\<close>

record js_runtime =
  localeCompare :: "string \<Rightarrow> string \<Rightarrow> int"
  toLowerCase :: "string \<Rightarrow> string"
  numberToString :: "rat \<Rightarrow> string"
  arraySort :: "(DataRow \<Rightarrow> DataRow \<Rightarrow> rat) \<Rightarrow> DataRow list \<Rightarrow> DataRow list"

text \<open>\<^verbatim>\<open>String(v)\<close>, and a template literal's rendering of \<open>v\<close>.\<close>

fun String_of :: "js_runtime \<Rightarrow> js_value option \<Rightarrow> string" where
  "String_of rt None = ''undefined''"
| "String_of rt (Some JNull) = ''null''"
| "String_of rt (Some (JString s)) = s"
| "String_of rt (Some (JNumber n)) = numberToString rt n"
| "String_of rt (Some (JBoolean b)) = (if b then ''true'' else ''false'')"

text \<open>Decimal digits of a natural number, and \<^verbatim>\<open>padStart(2, '0')\<close>.\<close>

fun digit_char :: "nat \<Rightarrow> char" where
  "digit_char n = char_of (48 + n)"

fun nat_to_string :: "nat \<Rightarrow> string" where
  "nat_to_string n =
     (if n < 10 then [digit_char n] else nat_to_string (n div 10) @ [digit_char (n mod 10)])"

declare nat_to_string.simps [simp del]

definition padStart2 :: "string \<Rightarrow> string" where
  "padStart2 s = replicate (2 - length s) (CHR ''0'') @ s"

text \<open>\<^verbatim>\<open>xs.join(sep)\<close>.\<close>

fun join :: "string \<Rightarrow> string list \<Rightarrow> string" where
  "join sep [] = []"
| "join sep [x] = x"
| "join sep (x # y # ys) = x @ sep @ join sep (y # ys)"

section \<open>DataExplorer (components/DataExplorer.tsx)\<close>

subsection \<open>State\<close>

datatype Aggregation = Max | Average

datatype SortDirection = Asc | Desc

text \<open>
  One call of \<^verbatim>\<open>fetchData(cluster, category, {...})\<close> as \<^verbatim>\<open>loadData\<close> makes it.
\<close>

record fetch_request =
  q_cluster :: ClusterConfig
  q_category :: Category
  q_startTime :: string
  q_endTime :: string
  q_interval :: rat
  q_aggregationType :: Aggregation
  q_ratio :: rat
  q_rf :: rat
  q_cvmVcore :: rat
  q_cvmMemory :: rat
  q_ignoreCache :: bool

text \<open>
  The component's \<^verbatim>\<open>useState\<close> hooks, one field each. Two fields record what the
  component did to the outside: \<open>requests\<close> is the sequence of \<^verbatim>\<open>fetchData\<close> calls
  issued so far (the position of a call in it numbers the fetch), \<open>alerts\<close> the
  messages passed to \<^verbatim>\<open>alert\<close>.
\<close>

record explorer_state =
  category :: Category
  selectedFields :: "string list"
  data :: "DataRow list"
  loading :: bool
  startTime :: string
  endTime :: string
  interval :: rat
  aggregationType :: Aggregation
  expandedClusters :: "string set"
  ratio :: rat
  rf :: rat
  cvmVcore :: rat
  cvmMemory :: rat
  sortField :: "string option"
  sortDirection :: SortDirection
  requests :: "fetch_request list"
  alerts :: "string list"

text \<open>The initial values of the hooks, before any effect has run.\<close>

definition initial_state :: explorer_state where
  "initial_state =
     \<lparr>category = VM, selectedFields = DEFAULT_FIELDS VM, data = [], loading = False,
      startTime = [], endTime = [], interval = 30, aggregationType = Average,
      expandedClusters = {}, ratio = 3, rf = 2, cvmVcore = 0, cvmMemory = 0,
      sortField = None, sortDirection = Asc, requests = [], alerts = []\<rparr>"

subsection \<open>The category-change effect\<close>

text \<open>
  The local calendar fields of a \<^verbatim>\<open>Date\<close>. The runtime's time zone decides them: the
  function from milliseconds since the epoch to these fields is a parameter \<open>tz\<close>.
\<close>

record js_date =
  getFullYear :: nat
  getMonth :: nat
  getDate :: nat
  getHours :: nat
  getMinutes :: nat

definition formatDateTime :: "js_date \<Rightarrow> string" where
  "formatDateTime date =
     (let year = getFullYear date;
          month = padStart2 (nat_to_string (getMonth date + 1));
          day = padStart2 (nat_to_string (getDate date));
          hours = padStart2 (nat_to_string (getHours date));
          minutes = padStart2 (nat_to_string (getMinutes date))
      in nat_to_string year @ ''-'' @ month @ ''-'' @ day @ ''T'' @ hours @ '':'' @ minutes)"

text \<open>
  The body of \<^verbatim>\<open>useEffect(..., [category])\<close>; \<open>now\<close> is \<^verbatim>\<open>new Date().getTime()\<close>.
\<close>

definition categoryEffect :: "(int \<Rightarrow> js_date) \<Rightarrow> int \<Rightarrow> explorer_state \<Rightarrow> explorer_state" where
  "categoryEffect tz now s =
     (let s1 = s\<lparr>selectedFields := DEFAULT_FIELDS (category s), data := []\<rparr>
      in if category s = Performance then
           (let oneHourAgo = now - 60 * 60 * 1000
            in s1\<lparr>startTime := formatDateTime (tz oneHourAgo),
                   endTime := formatDateTime (tz now),
                   interval := 30\<rparr>)
         else s1)"

subsection \<open>loadData\<close>

text \<open>
  \<^verbatim>\<open>loadData\<close> is asynchronous. Its part before the \<^verbatim>\<open>await\<close> is \<open>loadData\<close>: the
  two guards, \<^verbatim>\<open>setLoading(true)\<close> and the call of \<^verbatim>\<open>fetchData\<close>. Its continuation is
  \<open>loadData_resolved\<close> when the promise is fulfilled with \<open>result\<close>, and
  \<open>loadData_rejected\<close> when it is rejected; both end in the \<^verbatim>\<open>finally\<close> block.
\<close>

definition loadData :: "ClusterConfig \<Rightarrow> bool \<Rightarrow> explorer_state \<Rightarrow> explorer_state" where
  "loadData cluster ignoreCache s =
     (if category s = Performance \<and> (startTime s = [] \<or> endTime s = []) then s
      else if category s = Resources \<and> (ratio s = 0 \<or> rf s = 0) then s
      else s\<lparr>loading := True,
             requests := requests s @
               [\<lparr>q_cluster = cluster, q_category = category s, q_startTime = startTime s,
                 q_endTime = endTime s, q_interval = interval s,
                 q_aggregationType = aggregationType s, q_ratio = ratio s, q_rf = rf s,
                 q_cvmVcore = cvmVcore s, q_cvmMemory = cvmMemory s,
                 q_ignoreCache = ignoreCache\<rparr>]\<rparr>)"

definition loadData_resolved :: "DataRow list \<Rightarrow> explorer_state \<Rightarrow> explorer_state" where
  "loadData_resolved result s = s\<lparr>data := result, loading := False\<rparr>"

definition loadData_rejected :: "explorer_state \<Rightarrow> explorer_state" where
  "loadData_rejected s = s\<lparr>alerts := alerts s @ [''Failed to fetch data.''], loading := False\<rparr>"

text \<open>The body of \<^verbatim>\<open>useEffect(..., [loadData, cluster, category])\<close>.\<close>

definition autoFetchEffect :: "ClusterConfig \<Rightarrow> explorer_state \<Rightarrow> explorer_state" where
  "autoFetchEffect cluster s =
     (if cluster_isVerified cluster \<and> category s \<noteq> Performance \<and> category s \<noteq> Resources
      then loadData cluster False s else s)"

text \<open>
  The category drop-down's \<^verbatim>\<open>onChange\<close>: \<^verbatim>\<open>setCategory(c)\<close>, then the effects that depend
  on \<^verbatim>\<open>category\<close>, in the order the component declares them. Setting a hook to the
  value it already has schedules no render and no effect.
\<close>

definition setCategory ::
  "ClusterConfig \<Rightarrow> (int \<Rightarrow> js_date) \<Rightarrow> int \<Rightarrow> Category \<Rightarrow> explorer_state \<Rightarrow> explorer_state" where
  "setCategory cluster tz now c s =
     (if c = category s then s
      else autoFetchEffect cluster (categoryEffect tz now (s\<lparr>category := c\<rparr>)))"

text \<open>The parameter inputs' \<^verbatim>\<open>onChange\<close> handlers.\<close>

definition setAggregationType :: "Aggregation \<Rightarrow> explorer_state \<Rightarrow> explorer_state" where
  "setAggregationType a s = s\<lparr>aggregationType := a\<rparr>"

definition setInterval :: "rat \<Rightarrow> explorer_state \<Rightarrow> explorer_state" where
  "setInterval n s = s\<lparr>interval := n\<rparr>"

definition setRatio :: "rat \<Rightarrow> explorer_state \<Rightarrow> explorer_state" where
  "setRatio n s = s\<lparr>ratio := n\<rparr>"

text \<open>
  What can happen to the component while fetches are outstanding: the user triggers a
  fetch (the Apply or the API Recall button), or the response of fetch number \<open>g\<close>
  arrives, fulfilled with rows or rejected. The continuation of \<^verbatim>\<open>loadData\<close> does not
  know which fetch it belongs to.
\<close>

datatype event = Trigger bool | Resolved nat "DataRow list" | Rejected nat

fun step :: "ClusterConfig \<Rightarrow> explorer_state \<Rightarrow> event \<Rightarrow> explorer_state" where
  "step cluster s (Trigger ignoreCache) = loadData cluster ignoreCache s"
| "step cluster s (Resolved g result) = loadData_resolved result s"
| "step cluster s (Rejected g) = loadData_rejected s"

definition run :: "ClusterConfig \<Rightarrow> explorer_state \<Rightarrow> event list \<Rightarrow> explorer_state" where
  "run cluster s evs = foldl (step cluster) s evs"

subsection \<open>Column selection and sorting\<close>

definition toggleField :: "string \<Rightarrow> explorer_state \<Rightarrow> explorer_state" where
  "toggleField k s =
     s\<lparr>selectedFields :=
         (if k \<in> set (selectedFields s) then filter (\<lambda>f. f \<noteq> k) (selectedFields s)
          else selectedFields s @ [k])\<rparr>"

definition handleSort :: "string \<Rightarrow> explorer_state \<Rightarrow> explorer_state" where
  "handleSort field s =
     (if sortField s = Some field
      then s\<lparr>sortDirection := (if sortDirection s = Asc then Desc else Asc)\<rparr>
      else s\<lparr>sortField := Some field, sortDirection := Asc\<rparr>)"

text \<open>
  The comparator \<^verbatim>\<open>sortedData\<close> passes to \<^verbatim>\<open>sort\<close>. Only the sign of its result
  matters to \<^verbatim>\<open>sort\<close>; the difference of two finite floating-point numbers has the
  sign of their exact difference.
\<close>

definition compare :: "js_runtime \<Rightarrow> string \<Rightarrow> SortDirection \<Rightarrow> DataRow \<Rightarrow> DataRow \<Rightarrow> rat" where
  "compare rt field direction a b =
     (let aValue = a field; bValue = b field
      in if is_nullish aValue then 1
         else if is_nullish bValue then - 1
         else (case (aValue, bValue) of
                 (Some (JNumber x), Some (JNumber y)) \<Rightarrow>
                   (if direction = Asc then x - y else y - x)
               | _ \<Rightarrow>
                   (let aStr = toLowerCase rt (String_of rt aValue);
                        bStr = toLowerCase rt (String_of rt bValue)
                    in if direction = Asc then of_int (localeCompare rt aStr bStr)
                       else of_int (localeCompare rt bStr aStr))))"

definition sortedData :: "js_runtime \<Rightarrow> explorer_state \<Rightarrow> DataRow list" where
  "sortedData rt s =
     (case sortField s of
        None \<Rightarrow> data s
      | Some field \<Rightarrow>
          (if field = [] then data s
           else arraySort rt (compare rt field (sortDirection s)) (data s)))"

subsection \<open>Expansion and visible rows\<close>

definition toggleClusterExpansion :: "string \<Rightarrow> explorer_state \<Rightarrow> explorer_state" where
  "toggleClusterExpansion clusterName s =
     s\<lparr>expandedClusters :=
         (if clusterName \<in> expandedClusters s then expandedClusters s - {clusterName}
          else insert clusterName (expandedClusters s))\<rparr>"

text \<open>\<^verbatim>\<open>expandedClusters.has(v)\<close>: the set holds strings only.\<close>

fun has :: "string set \<Rightarrow> js_value option \<Rightarrow> bool" where
  "has S (Some (JString x)) = (x \<in> S)"
| "has S v = False"

text \<open>
  The table body maps every row of \<^verbatim>\<open>sortedData\<close> to a table row or to null; a row is
  mapped to null (not shown) when \<open>rowHidden\<close> holds.
\<close>

definition isClusterRow :: "Category \<Rightarrow> DataRow \<Rightarrow> bool" where
  "isClusterRow c row = (c = Performance \<and> row ''entityType'' = Some (JString ''cluster''))"

definition isHostRow :: "Category \<Rightarrow> DataRow \<Rightarrow> bool" where
  "isHostRow c row = (c = Performance \<and> row ''entityType'' = Some (JString ''host''))"

definition rowHidden :: "Category \<Rightarrow> string set \<Rightarrow> DataRow \<Rightarrow> bool" where
  "rowHidden c expanded row =
     (let parentCluster = (if isHostRow c row then row ''parentCluster'' else Some JNull)
      in isHostRow c row \<and> truthy parentCluster \<and> \<not> has expanded parentCluster)"

definition visibleRows :: "Category \<Rightarrow> string set \<Rightarrow> DataRow list \<Rightarrow> DataRow list" where
  "visibleRows c expanded rows = filter (\<lambda>row. \<not> rowHidden c expanded row) rows"

subsection \<open>Export\<close>

text \<open>
  The JSON body \<^verbatim>\<open>exportToXLSX\<close> posts to the export service. The Resources branch adds
  the fields of \<open>resources_part\<close>; the other branch leaves them out.
\<close>

record resources_part =
  isResources :: bool
  cpuData :: "DataRow list"
  memoryData :: "DataRow list"
  cpuFields :: "string list"
  memoryFields :: "string list"
  cpuFieldLabels :: "string \<rightharpoonup> string"
  memoryFieldLabels :: "string \<rightharpoonup> string"

record export_body =
  body_data :: "DataRow list"
  body_fields :: "string list"
  body_fieldLabels :: "string \<rightharpoonup> string"
  body_filename :: string
  body_resources :: "resources_part option"

definition CPU_FIELDS :: "string list" where
  "CPU_FIELDS = [''hostName'', ''vmCount'', ''numaOver'', ''pCore'', ''useVCore'',
                 ''recommendVcoreRatio'', ''currentVcoreRatio'', ''result'']"

definition CPU_FIELD_LABELS :: "string \<rightharpoonup> string" where
  "CPU_FIELD_LABELS = map_of
     [(''hostName'', ''Host name''), (''vmCount'', ''VM Count''), (''numaOver'', ''NUMA over''),
      (''pCore'', ''pCore''), (''useVCore'', ''Use vCore''),
      (''recommendVcoreRatio'', ''Recommend vcore Ratio''),
      (''currentVcoreRatio'', ''Current vcore Ratio''), (''result'', ''Result'')]"

definition MEMORY_FIELDS :: "string list" where
  "MEMORY_FIELDS = [''hostName'', ''vmCount'', ''numaOver'', ''memoryGiB'', ''useMemoryGiB'',
                    ''recommendUse'', ''availableMemory'', ''result'']"

definition MEMORY_FIELD_LABELS :: "string \<rightharpoonup> string" where
  "MEMORY_FIELD_LABELS = map_of
     [(''hostName'', ''Host name''), (''vmCount'', ''VM Count''), (''numaOver'', ''NUMA over''),
      (''memoryGiB'', ''Memory(GiB)''), (''useMemoryGiB'', ''Use Memory(GiB) =(A)''),
      (''recommendUse'', ''Recommend Use =(B)''),
      (''availableMemory'', ''Available memory (B-A)''), (''result'', ''Result'')]"

text \<open>
  \<^verbatim>\<open>(data[0]?.clusterName as string) || cluster.name || cluster.ip\<close>, as the template
  literal of the file name renders it.
\<close>

definition actualClusterName :: "js_runtime \<Rightarrow> ClusterConfig \<Rightarrow> DataRow list \<Rightarrow> string" where
  "actualClusterName rt cluster rows =
     (let first = (case rows of [] \<Rightarrow> None | row # _ \<Rightarrow> row ''clusterName'')
      in if truthy first then String_of rt first
         else if cluster_name cluster \<noteq> [] then cluster_name cluster
         else cluster_ip cluster)"

text \<open>
  \<^verbatim>\<open>def?.label || field\<close> for the column \<open>field\<close> of category \<open>c\<close>, and the object the
  \<^verbatim>\<open>forEach\<close> over the selected fields fills.
\<close>

definition fieldLabel :: "Category \<Rightarrow> string \<Rightarrow> string" where
  "fieldLabel c field =
     (case find (\<lambda>f. key f = field) (FIELD_DEFINITIONS c) of
        None \<Rightarrow> field
      | Some d \<Rightarrow> (if label d \<noteq> [] then label d else field))"

definition fieldLabels :: "Category \<Rightarrow> string list \<Rightarrow> (string \<rightharpoonup> string)" where
  "fieldLabels c selected = foldl (\<lambda>m field. m(field \<mapsto> fieldLabel c field)) Map.empty selected"

text \<open>
  \<open>exportToXLSX\<close> is the request the function sends: \<^term>\<open>None\<close> when it returns
  before sending one. \<open>isoDate\<close> is \<^verbatim>\<open>new Date().toISOString().split('T')[0]\<close>. What the
  function does with the response (the download, or the alert on a failure) is not part
  of the model.
\<close>

definition exportToXLSX ::
  "js_runtime \<Rightarrow> ClusterConfig \<Rightarrow> string \<Rightarrow> explorer_state \<Rightarrow> export_body option" where
  "exportToXLSX rt cluster isoDate s =
     (if data s = [] then None
      else
        (let filename = actualClusterName rt cluster (data s) @ ''_'' @
                          category_name (category s) @ ''_'' @ isoDate
         in if category s = Resources then
              (let cpu = filter (\<lambda>row. row ''table'' = Some (JString ''CPU'')) (data s);
                   memory = filter (\<lambda>row. row ''table'' = Some (JString ''Memory'')) (data s)
               in Some \<lparr>body_data = cpu @ memory,
                         body_fields = (if cpu \<noteq> [] then CPU_FIELDS else MEMORY_FIELDS),
                         body_fieldLabels =
                           (if cpu \<noteq> [] then CPU_FIELD_LABELS else MEMORY_FIELD_LABELS),
                         body_filename = filename,
                         body_resources =
                           Some \<lparr>isResources = True, cpuData = cpu, memoryData = memory,
                                  cpuFields = CPU_FIELDS, memoryFields = MEMORY_FIELDS,
                                  cpuFieldLabels = CPU_FIELD_LABELS,
                                  memoryFieldLabels = MEMORY_FIELD_LABELS\<rparr>\<rparr>)
            else
              Some \<lparr>body_data = data s,
                     body_fields = selectedFields s,
                     body_fieldLabels = fieldLabels (category s) (selectedFields s),
                     body_filename = filename,
                     body_resources = None\<rparr>))"

section \<open>ClusterManager (components/ClusterManager.tsx)\<close>

subsection \<open>State\<close>

record preset =
  preset_id :: string
  preset_type :: ClusterType
  preset_ip :: string
  preset_username :: string
  preset_password :: string
  preset_apiVersion :: "ApiVersion option"

text \<open>The form state \<^verbatim>\<open>newCluster\<close>: the fields of a \<^verbatim>\<open>Partial<ClusterConfig>\<close> it uses.\<close>

record cluster_form =
  form_ip :: string
  form_username :: string
  form_password :: string
  form_type :: ClusterType
  form_apiVersion :: "ApiVersion option"

text \<open>
  The component's hooks and the two props it writes (\<open>clusters\<close> through
  \<^verbatim>\<open>setClusters\<close>, \<open>selectedClusterId\<close> through \<^verbatim>\<open>onSelectCluster\<close>). \<open>verifyCalls\<close>
  is the sequence of candidates passed to \<^verbatim>\<open>verifyClusterConnection\<close> so far,
  \<open>manager_alerts\<close> the messages passed to \<^verbatim>\<open>alert\<close>.
\<close>

record manager_state =
  clusters :: "ClusterConfig list"
  selectedClusterId :: "string option"
  isModalOpen :: bool
  presets :: "preset list"
  selectedPresets :: "string set"
  newCluster :: cluster_form
  verifying :: bool
  errorMsg :: "string option"
  verifyCalls :: "ClusterConfig list"
  manager_alerts :: "string list"

text \<open>
  The outside of the component: the verification service, which answers a candidate
  with the cluster's name (\<^term>\<open>Inr\<close>) or fails with an error whose message it carries
  (\<^term>\<open>Inl\<close>), and the identifiers \<^verbatim>\<open>Date.now()\<close> and \<^verbatim>\<open>Math.random()\<close> give:
  \<open>singleId\<close> on the single-target path, \<open>batchId i\<close> in the \<open>i\<close>-th round of the
  batch loop.
\<close>

record manager_env =
  verifyClusterConnection :: "ClusterConfig \<Rightarrow> string + string"
  singleId :: string
  batchId :: "nat \<Rightarrow> string"

definition resetForm :: cluster_form where
  "resetForm = \<lparr>form_ip = [], form_username = [], form_password = [], form_type = PE,
                form_apiVersion = None\<rparr>"

definition defaultName :: "ClusterType \<Rightarrow> string" where
  "defaultName t = (if t = PE then ''Prism Element'' else ''Prism Central'')"

subsection \<open>Loading the presets\<close>

text \<open>
  A JSON value, as \<^verbatim>\<open>JSON.parse\<close> returns it. \<^verbatim>\<open>JSON.parse\<close> itself belongs to the
  runtime and is a parameter: \<^term>\<open>None\<close> where it throws a \<^verbatim>\<open>SyntaxError\<close>.
\<close>

datatype json =
  JsonNull | JsonBool bool | JsonNum rat | JsonStr string
  | JsonArr "json list" | JsonObj "(string \<times> json) list"

datatype js_error = SyntaxError

text \<open>
  The mount effect: \<open>savedPresets\<close> is what \<^verbatim>\<open>localStorage.getItem('clusterPresets')\<close>
  returned (\<^term>\<open>None\<close> for null, the key being absent), \<open>current\<close> the value of the
  \<^verbatim>\<open>presets\<close> hook. The result is the hook's value after the effect, or the exception
  that leaves the effect.
\<close>

definition presetsLoadEffect ::
  "(string \<Rightarrow> json option) \<Rightarrow> string option \<Rightarrow> json \<Rightarrow> js_error + json" where
  "presetsLoadEffect JSON_parse savedPresets current =
     (case savedPresets of
        None \<Rightarrow> Inr current
      | Some text \<Rightarrow>
          (if text = [] then Inr current
           else (case JSON_parse text of
                   None \<Rightarrow> Inl SyntaxError
                 | Some v \<Rightarrow> Inr v)))"

subsection \<open>Connecting\<close>

definition clusterOfPreset :: "string \<Rightarrow> preset \<Rightarrow> ClusterConfig" where
  "clusterOfPreset tempId p =
     \<lparr>cluster_id = tempId, cluster_name = defaultName (preset_type p),
      cluster_ip = preset_ip p, cluster_username = preset_username p,
      cluster_password = preset_password p, cluster_isVerified = False,
      cluster_type = preset_type p,
      cluster_apiVersion = (case preset_apiVersion p of None \<Rightarrow> V2_0 | Some v \<Rightarrow> v)\<rparr>"

text \<open>
  The \<^verbatim>\<open>for\<close> loop of \<^verbatim>\<open>connectSelectedPresets\<close> from its \<open>i\<close>-th round on, over the
  presets still to try; it carries the component state, \<^verbatim>\<open>successList\<close> and
  \<^verbatim>\<open>failureList\<close>.
\<close>

fun connectLoop ::
  "manager_env \<Rightarrow> nat \<Rightarrow> preset list \<Rightarrow>
   manager_state \<times> string list \<times> (string \<times> string) list \<Rightarrow>
   manager_state \<times> string list \<times> (string \<times> string) list" where
  "connectLoop env i [] acc = acc"
| "connectLoop env i (p # rest) (s, successList, failureList) =
     (let clusterToAdd = clusterOfPreset (batchId env i) p;
          s1 = s\<lparr>verifyCalls := verifyCalls s @ [clusterToAdd]\<rparr>
      in case verifyClusterConnection env clusterToAdd of
           Inr clusterName \<Rightarrow>
             (let finalCluster =
                    clusterToAdd\<lparr>cluster_name := clusterName, cluster_isVerified := True\<rparr>
              in connectLoop env (Suc i) rest
                   (s1\<lparr>clusters := clusters s1 @ [finalCluster]\<rparr>,
                    successList @ [preset_ip p], failureList))
         | Inl message \<Rightarrow>
             connectLoop env (Suc i) rest
               (s1, successList,
                failureList @
                  [(preset_ip p, if message \<noteq> [] then message else ''Connection failed'')]))"

text \<open>The bullet of the report is U+2022, three bytes in UTF-8.\<close>

definition bullet :: string where
  "bullet = [CHR 0xE2, CHR 0x80, CHR 0xA2]"

definition failureLine :: "string \<times> string \<Rightarrow> string" where
  "failureLine f = bullet @ '' '' @ fst f @ '': '' @ snd f"

definition batchReport :: "string list \<Rightarrow> (string \<times> string) list \<Rightarrow> string" where
  "batchReport successList failureList =
     ''Successfully connected: '' @ nat_to_string (length successList) @
     [CHR 0x0A, CHR 0x0A] @ ''Failed connections:'' @ [CHR 0x0A] @
     join [CHR 0x0A] (map failureLine failureList)"

definition connectSelectedPresets :: "manager_env \<Rightarrow> manager_state \<Rightarrow> manager_state" where
  "connectSelectedPresets env s =
     (let selectedPresetsList = filter (\<lambda>p. preset_id p \<in> selectedPresets s) (presets s)
      in if selectedPresetsList = [] then s
         else
           (case connectLoop env 0 selectedPresetsList
                   (s\<lparr>verifying := True, errorMsg := None\<rparr>, [], []) of
              (s1, successList, failureList) \<Rightarrow>
                (let s2 = s1\<lparr>verifying := False\<rparr>
                 in if failureList \<noteq> []
                    then s2\<lparr>errorMsg := Some (batchReport successList failureList)\<rparr>
                    else s2\<lparr>selectedPresets := {}, isModalOpen := False,
                            newCluster := resetForm\<rparr>)))"

definition handleAddCluster :: "manager_env \<Rightarrow> manager_state \<Rightarrow> manager_state" where
  "handleAddCluster env s =
     (if 2 \<le> card (selectedPresets s) then connectSelectedPresets env s
      else if form_ip (newCluster s) = [] \<or> form_username (newCluster s) = [] \<or>
              form_password (newCluster s) = []
      then s\<lparr>errorMsg := Some ''All fields are required.''\<rparr>
      else if form_apiVersion (newCluster s) = Some V4_0
      then s\<lparr>manager_alerts := manager_alerts s @ [''We are planning to update.'']\<rparr>
      else
        (let tempId = singleId env;
             clusterToAdd =
               \<lparr>cluster_id = tempId, cluster_name = defaultName (form_type (newCluster s)),
                cluster_ip = form_ip (newCluster s),
                cluster_username = form_username (newCluster s),
                cluster_password = form_password (newCluster s),
                cluster_isVerified = False, cluster_type = form_type (newCluster s),
                cluster_apiVersion =
                  (case form_apiVersion (newCluster s) of None \<Rightarrow> V2_0 | Some v \<Rightarrow> v)\<rparr>;
             s1 = s\<lparr>verifying := True, errorMsg := None,
                    verifyCalls := verifyCalls s @ [clusterToAdd]\<rparr>
         in (case verifyClusterConnection env clusterToAdd of
               Inr clusterName \<Rightarrow>
                 s1\<lparr>clusters := clusters s1 @
                        [clusterToAdd\<lparr>cluster_name := clusterName, cluster_isVerified := True\<rparr>],
                     selectedClusterId := Some tempId, isModalOpen := False,
                     newCluster := resetForm, verifying := False\<rparr>
             | Inl message \<Rightarrow>
                 s1\<lparr>errorMsg := Some (if message \<noteq> [] then message
                                       else ''Unknown error occurred.''),
                     verifying := False\<rparr>)))"

section \<open>Notions the properties are stated with\<close>

subsection \<open>Column selection\<close>

text \<open>
  The keys of a category's columns in their canonical order, and what it means for a
  selection to be a subset of them in that order.
\<close>

definition columnKeys :: "Category \<Rightarrow> string list" where
  "columnKeys c = map key (FIELD_DEFINITIONS c)"

definition inCanonicalOrder :: "Category \<Rightarrow> string list \<Rightarrow> bool" where
  "inCanonicalOrder c selected = (selected = filter (\<lambda>k. k \<in> set selected) (columnKeys c))"

text \<open>A sequence of \<open>toggleField\<close> calls, first key first.\<close>

definition toggleAll :: "string list \<Rightarrow> explorer_state \<Rightarrow> explorer_state" where
  "toggleAll ks s = foldl (\<lambda>t k. toggleField k t) s ks"

subsection \<open>Responses\<close>

text \<open>The payload of the last fulfilled response among a sequence of events, if any.\<close>

fun lastResolved :: "event list \<Rightarrow> DataRow list option" where
  "lastResolved [] = None"
| "lastResolved (Resolved g rows # evs) =
     (case lastResolved evs of None \<Rightarrow> Some rows | Some later \<Rightarrow> Some later)"
| "lastResolved (e # evs) = lastResolved evs"

subsection \<open>The report\<close>

text \<open>The number a string of decimal digits denotes.\<close>

definition decimalValue :: "string \<Rightarrow> nat" where
  "decimalValue s = foldl (\<lambda>a c. 10 * a + (of_char c - 48)) 0 s"

subsection \<open>Example inputs\<close>

text \<open>Rows of a Performance result: a cluster, a host under it, and a host without a parent.\<close>

definition exampleCluster1 :: DataRow where
  "exampleCluster1 = [''entityType'' \<mapsto> JString ''cluster'', ''entityName'' \<mapsto> JString ''C1'']"

definition exampleHost1 :: DataRow where
  "exampleHost1 = [''entityType'' \<mapsto> JString ''host'', ''entityName'' \<mapsto> JString ''h1'',
                   ''parentCluster'' \<mapsto> JString ''C1'']"

definition exampleOrphanHost :: DataRow where
  "exampleOrphanHost = [''entityType'' \<mapsto> JString ''host'', ''entityName'' \<mapsto> JString ''h2'']"

text \<open>A verified cluster, as the explorer receives it.\<close>

definition exampleTarget :: ClusterConfig where
  "exampleTarget =
     \<lparr>cluster_id = ''1'', cluster_name = ''prod'', cluster_ip = ''10.0.0.1'',
      cluster_username = ''admin'', cluster_password = ''pw'', cluster_isVerified = True,
      cluster_type = PE, cluster_apiVersion = V2_0\<rparr>"

text \<open>A time zone for the examples: UTC on a fixed day.\<close>

definition exampleTz :: "int \<Rightarrow> js_date" where
  "exampleTz t =
     \<lparr>getFullYear = 2026, getMonth = 0, getDate = 5,
      getHours = nat ((t div 3600000) mod 24), getMinutes = nat ((t div 60000) mod 60)\<rparr>"

text \<open>
  A state the user has worked in: in turn under Performance (interval 60, aggregation
  max), under Resources (ratio 5) and under VM, where a response has arrived and a
  column has been added.
\<close>

definition examplePrior :: explorer_state where
  "examplePrior =
     toggleField ''uuid''
       (loadData_resolved [exampleCluster1]
          (setCategory exampleTarget exampleTz 10800000 VM
             (setRatio 5
                (setCategory exampleTarget exampleTz 7200000 Resources
                   (setAggregationType Max
                      (setInterval 60
                         (setCategory exampleTarget exampleTz 3600000 Performance
                            initial_state)))))))"

text \<open>
  A runtime for the examples: strings compare byte by byte, lower-casing is ASCII's,
  numbers print as their integer part, and the sort is a stable insertion sort.
\<close>

fun lexCompare :: "string \<Rightarrow> string \<Rightarrow> int" where
  "lexCompare [] [] = 0"
| "lexCompare [] (y # ys) = - 1"
| "lexCompare (x # xs) [] = 1"
| "lexCompare (x # xs) (y # ys) =
     (if (of_char x :: nat) < of_char y then - 1
      else if (of_char y :: nat) < of_char x then 1
      else lexCompare xs ys)"

definition asciiLower :: "char \<Rightarrow> char" where
  "asciiLower c =
     (if 65 \<le> (of_char c :: nat) \<and> (of_char c :: nat) \<le> 90 then char_of (of_char c + 32 :: nat)
      else c)"

fun insertBy :: "('a \<Rightarrow> 'a \<Rightarrow> rat) \<Rightarrow> 'a \<Rightarrow> 'a list \<Rightarrow> 'a list" where
  "insertBy cmp x [] = [x]"
| "insertBy cmp x (y # ys) = (if cmp x y \<le> 0 then x # y # ys else y # insertBy cmp x ys)"

definition exampleRuntime :: js_runtime where
  "exampleRuntime =
     \<lparr>localeCompare = lexCompare, toLowerCase = map asciiLower,
      numberToString = (\<lambda>n. nat_to_string (nat \<lfloor>n\<rfloor>)),
      arraySort = (\<lambda>cmp rows. foldr (insertBy cmp) rows [])\<rparr>"

subsection \<open>The batch\<close>

text \<open>
  The presets a batch tries, in the order of the preset list: those whose identity is
  selected.
\<close>

definition candidates :: "manager_state \<Rightarrow> preset list" where
  "candidates s = filter (\<lambda>p. preset_id p \<in> selectedPresets s) (presets s)"

text \<open>
  The candidates the loop builds from the presets \<open>ps\<close> in its rounds \<open>i\<close>, \<open>i + 1\<close>,
  ...; whether the service accepts a candidate; the cluster the loop adds for an accepted
  candidate; and the entry of the failure list for a refused one.
\<close>

definition attempts :: "manager_env \<Rightarrow> nat \<Rightarrow> preset list \<Rightarrow> ClusterConfig list" where
  "attempts env i ps = map (\<lambda>(j, p). clusterOfPreset (batchId env j) p) (enumerate i ps)"

definition succeeded :: "manager_env \<Rightarrow> ClusterConfig \<Rightarrow> bool" where
  "succeeded env c = (case verifyClusterConnection env c of Inr clusterName \<Rightarrow> True | Inl message \<Rightarrow> False)"

definition finalCluster :: "manager_env \<Rightarrow> ClusterConfig \<Rightarrow> ClusterConfig" where
  "finalCluster env c =
     (case verifyClusterConnection env c of
        Inr clusterName \<Rightarrow> c\<lparr>cluster_name := clusterName, cluster_isVerified := True\<rparr>
      | Inl message \<Rightarrow> c)"

definition failureOf :: "manager_env \<Rightarrow> ClusterConfig \<Rightarrow> string \<times> string" where
  "failureOf env c =
     (cluster_ip c,
      case verifyClusterConnection env c of
        Inl message \<Rightarrow> (if message \<noteq> [] then message else ''Connection failed'')
      | Inr clusterName \<Rightarrow> [])"

subsection \<open>Further example inputs\<close>

text \<open>A JSON parser that knows two texts, and two Resources rows.\<close>

definition exampleParse :: "string \<Rightarrow> json option" where
  "exampleParse t = (if t = ''[]'' then Some (JsonArr []) else if t = ''{}'' then Some (JsonObj []) else None)"

definition exampleCpuRow :: DataRow where
  "exampleCpuRow = [''table'' \<mapsto> JString ''CPU'', ''hostName'' \<mapsto> JString ''h1'', ''pCore'' \<mapsto> JNumber 32]"

definition exampleMemoryRow :: DataRow where
  "exampleMemoryRow = [''table'' \<mapsto> JString ''Memory'', ''hostName'' \<mapsto> JString ''h1'',
                       ''memoryGiB'' \<mapsto> JNumber 512]"

text \<open>
  Three presets, the third for API version 4.0, all selected; a service that refuses
  the second; and a state with one preset selected and a version 4.0 form filled in.
\<close>

definition examplePreset :: "string \<Rightarrow> string \<Rightarrow> ApiVersion option \<Rightarrow> preset" where
  "examplePreset i addr v =
     \<lparr>preset_id = i, preset_type = PE, preset_ip = addr, preset_username = ''admin'',
      preset_password = ''pw'', preset_apiVersion = v\<rparr>"

definition exampleEnv :: manager_env where
  "exampleEnv =
     \<lparr>verifyClusterConnection =
        (\<lambda>c. if cluster_ip c = ''10.0.0.2'' then Inl ''timeout'' else Inr (''cl-'' @ cluster_ip c)),
      singleId = ''1700000000000'',
      batchId = (\<lambda>i. if i = 0 then ''1700000000000_0.11''
                      else if i = 1 then ''1700000000001_0.52'' else ''1700000000002_0.93'')\<rparr>"

definition exampleManager :: manager_state where
  "exampleManager =
     \<lparr>clusters = [], selectedClusterId = None, isModalOpen = True,
      presets = [examplePreset ''a'' ''10.0.0.1'' (Some V2_0),
                 examplePreset ''b'' ''10.0.0.2'' None,
                 examplePreset ''c'' ''10.0.0.3'' (Some V4_0)],
      selectedPresets = {''a'', ''b'', ''c''},
      newCluster = \<lparr>form_ip = [], form_username = [], form_password = [], form_type = PE,
                    form_apiVersion = Some V2_0\<rparr>,
      verifying = False, errorMsg = None, verifyCalls = [], manager_alerts = []\<rparr>"

definition exampleSingle :: manager_state where
  "exampleSingle =
     exampleManager
       \<lparr>selectedPresets := {''c''},
        newCluster := \<lparr>form_ip = ''10.0.0.3'', form_username = ''admin'', form_password = ''pw'',
                       form_type = PE, form_apiVersion = Some V4_0\<rparr>\<rparr>"

section \<open>Properties\<close>

subsection \<open>Column selection\<close>

lemma DEFAULT_FIELDS_keys: "set (DEFAULT_FIELDS c) \<subseteq> set (columnKeys c)"
  by (cases c) (simp_all add: columnKeys_def col_def)

lemma DEFAULT_FIELDS_distinct: "distinct (DEFAULT_FIELDS c)"
  by (cases c) simp_all

lemma toggleField_subset:
  "k \<in> K \<Longrightarrow> set (selectedFields s) \<subseteq> K \<Longrightarrow> set (selectedFields (toggleField k s)) \<subseteq> K"
  by (auto simp: toggleField_def)

lemma toggleField_distinct:
  "distinct (selectedFields s) \<Longrightarrow> distinct (selectedFields (toggleField k s))"
  by (simp add: toggleField_def)

lemma toggleAll_subset:
  "set ks \<subseteq> K \<Longrightarrow> set (selectedFields s) \<subseteq> K \<Longrightarrow> set (selectedFields (toggleAll ks s)) \<subseteq> K"
  unfolding toggleAll_def
  by (induction ks arbitrary: s) (simp_all add: toggleField_subset)

lemma toggleAll_distinct:
  "distinct (selectedFields s) \<Longrightarrow> distinct (selectedFields (toggleAll ks s))"
  unfolding toggleAll_def
  by (induction ks arbitrary: s) (simp_all add: toggleField_distinct)

text \<open>
  C4, as the code has it. \<open>toggleField\<close> keeps the selection in selection order, not in
  the category's canonical order, and does not look at the schema: a key that is
  selected is removed and the others keep their places; a key that is not selected is
  appended at the end, whether the category has such a column or not. Starting from the
  category's default selection, any sequence of toggles of keys of the category's
  schema (the only keys the column menu offers) leaves a selection without duplicates
  that is a subset of the category's column keys.
\<close>

theorem toggleField_selection_order:
  assumes "selectedFields s = DEFAULT_FIELDS c" and "set ks \<subseteq> set (columnKeys c)"
  shows "set (selectedFields (toggleAll ks s)) \<subseteq> set (columnKeys c) \<and>
         distinct (selectedFields (toggleAll ks s)) \<and>
         (\<forall>t k. k \<in> set (selectedFields t) \<longrightarrow>
            selectedFields (toggleField k t) = filter (\<lambda>f. f \<noteq> k) (selectedFields t)) \<and>
         (\<forall>t k. k \<notin> set (selectedFields t) \<longrightarrow>
            selectedFields (toggleField k t) = selectedFields t @ [k])"
  using assms
  by (simp add: toggleAll_subset toggleAll_distinct DEFAULT_FIELDS_keys DEFAULT_FIELDS_distinct
      toggleField_def)

theorem toggleField_selection_order_witness:
  "selectedFields (toggleAll [''uuid'', ''clusterName'', ''clusterName''] initial_state) =
     [''name'', ''powerState'', ''uuid'', ''clusterName''] \<and>
   set (selectedFields (toggleAll [''uuid'', ''clusterName'', ''clusterName''] initial_state))
     \<subseteq> set (columnKeys VM) \<and>
   distinct (selectedFields (toggleAll [''uuid'', ''clusterName'', ''clusterName''] initial_state)) \<and>
   selectedFields (toggleField ''name'' initial_state) = [''clusterName'', ''powerState''] \<and>
   selectedFields (toggleField ''bogus'' initial_state) =
     [''clusterName'', ''name'', ''powerState'', ''bogus'']"
  using toggleField_selection_order [of initial_state VM "[''uuid'', ''clusterName'', ''clusterName'']"]
  by (simp add: toggleAll_def toggleField_def initial_state_def columnKeys_def col_def)

text \<open>
  The claim as stated fails: switching the first default column of the VM category off
  and on again moves it behind the others; the Performance category's default selection
  is itself not in canonical order; and toggling a key outside the schema changes the
  state.
\<close>

theorem toggleField_canonical_counterexample:
  "\<not> inCanonicalOrder VM
       (selectedFields (toggleAll [''clusterName'', ''clusterName''] initial_state)) \<and>
   \<not> inCanonicalOrder Performance (DEFAULT_FIELDS Performance) \<and>
   toggleField ''bogus'' initial_state \<noteq> initial_state"
  by (simp add: inCanonicalOrder_def toggleAll_def toggleField_def initial_state_def
      columnKeys_def col_def)

subsection \<open>Responses and fetch generations\<close>

lemma data_loadData: "data (loadData cluster ignoreCache s) = data s"
  by (simp add: loadData_def)

lemma data_run:
  "data (run cluster s evs) = (case lastResolved evs of None \<Rightarrow> data s | Some rows \<Rightarrow> rows)"
  unfolding run_def
proof (induction evs arbitrary: s)
  case Nil
  show ?case by simp
next
  case (Cons e evs)
  show ?case
    by (cases e) (simp_all add: Cons.IH data_loadData loadData_resolved_def loadData_rejected_def
        split: option.splits)
qed

lemma lastResolved_snoc: "lastResolved (evs @ [Resolved g rows]) = Some rows"
  by (induction evs rule: lastResolved.induct) simp_all

lemma exampleRows_differ: "exampleCluster1 \<noteq> exampleHost1"
proof
  assume "exampleCluster1 = exampleHost1"
  then have "exampleCluster1 ''entityType'' = exampleHost1 ''entityType''" by simp
  then show False by (simp add: exampleCluster1_def exampleHost1_def)
qed

text \<open>
  C1, as the code has it. The component keeps no fetch generation: the continuation of
  \<open>loadData\<close> replaces the result set with the payload of whichever response arrives,
  without asking which fetch it answers. So after any sequence of events the result set
  is the payload of the fulfilled response that arrived last (or the old result set when
  none arrived). For a fetch \<open>g2\<close> triggered while \<open>g1\<close> is outstanding: when \<open>g1\<close>'s
  response arrives first, the result set is \<open>g2\<close>'s payload once \<open>g2\<close>'s response
  arrives; when \<open>g1\<close>'s response arrives after \<open>g2\<close>'s, it is \<open>g1\<close>'s payload that
  stays.
\<close>

theorem responses_applied_on_arrival:
  "data (run cluster s evs) = (case lastResolved evs of None \<Rightarrow> data s | Some rows \<Rightarrow> rows) \<and>
   data (run cluster s (evs @ [Resolved g rows])) = rows \<and>
   data (run cluster s [Trigger a, Trigger b, Resolved g1 p1, Resolved g2 p2]) = p2 \<and>
   data (run cluster s [Trigger a, Trigger b, Resolved g2 p2, Resolved g1 p1]) = p1"
  by (simp add: data_run lastResolved_snoc)

theorem responses_applied_on_arrival_witness:
  "data (run exampleTarget initial_state
           [Trigger False, Trigger True, Resolved 0 [exampleCluster1], Resolved 1 [exampleHost1]])
     = [exampleHost1] \<and>
   data (run exampleTarget initial_state
           [Trigger False, Trigger True, Resolved 1 [exampleHost1], Resolved 0 [exampleCluster1]])
     = [exampleCluster1]"
  using responses_applied_on_arrival [of exampleTarget initial_state "[]" 0 "[]" False True
      0 "[exampleCluster1]" 1 "[exampleHost1]"]
  by simp

text \<open>
  The claim as stated fails. Two fetches are issued, numbered 0 and 1. The response of
  fetch 0, arriving while fetch 1 is the latest, is applied. And when it arrives after
  the response of fetch 1, the result set is not the payload of fetch 1.
\<close>

theorem stale_response_counterexample:
  "length (requests (run exampleTarget initial_state [Trigger False, Trigger True])) = 2 \<and>
   data (run exampleTarget initial_state
           [Trigger False, Trigger True, Resolved 0 [exampleCluster1]]) = [exampleCluster1] \<and>
   data (run exampleTarget initial_state
           [Trigger False, Trigger True, Resolved 1 [exampleHost1], Resolved 0 [exampleCluster1]])
     \<noteq> [exampleHost1]"
  using exampleRows_differ
  by (simp add: run_def loadData_def loadData_resolved_def initial_state_def)

subsection \<open>Changing the category\<close>

text \<open>
  C2, as the code has it. Changing the category to \<open>c\<close> resets the selected columns to
  the defaults of \<open>c\<close> and clears the result set. For Performance it seeds the window
  with the most recent hour and the interval with 30; the aggregation is left as it was.
  For Resources nothing is seeded: ratio, replication factor and the two reservations
  are left as they were, and so are the window and the interval for every category but
  Performance. All six parameters have their defaults (average, 30, 3, 2, 0, 0) in the
  initial state. For Performance and Resources no fetch is issued by the change; and in
  every state whose category is one of the two, whatever the parameters have become,
  the automatic fetch does nothing.
\<close>

theorem setCategory_effect:
  assumes "c \<noteq> category s"
  shows "(let s' = setCategory cluster tz now c s in
          category s' = c \<and> selectedFields s' = DEFAULT_FIELDS c \<and> data s' = [] \<and>
          aggregationType s' = aggregationType s \<and>
          ratio s' = ratio s \<and> rf s' = rf s \<and> cvmVcore s' = cvmVcore s \<and>
          cvmMemory s' = cvmMemory s \<and>
          (c = Performance \<longrightarrow>
             startTime s' = formatDateTime (tz (now - 3600000)) \<and>
             endTime s' = formatDateTime (tz now) \<and> interval s' = 30) \<and>
          (c \<noteq> Performance \<longrightarrow>
             startTime s' = startTime s \<and> endTime s' = endTime s \<and> interval s' = interval s) \<and>
          (c = Performance \<or> c = Resources \<longrightarrow>
             requests s' = requests s \<and> loading s' = loading s \<and>
             autoFetchEffect cluster s' = s')) \<and>
         (\<forall>t. category t = Performance \<or> category t = Resources \<longrightarrow>
            autoFetchEffect cluster t = t) \<and>
         aggregationType initial_state = Average \<and> interval initial_state = 30 \<and>
         ratio initial_state = 3 \<and> rf initial_state = 2 \<and>
         cvmVcore initial_state = 0 \<and> cvmMemory initial_state = 0"
  using assms
  by (auto simp: setCategory_def categoryEffect_def autoFetchEffect_def loadData_def Let_def
      initial_state_def)

lemma examplePrior_fields:
  "category examplePrior = VM" "aggregationType examplePrior = Max"
  "interval examplePrior = 60" "ratio examplePrior = 5" "rf examplePrior = 2"
  "data examplePrior = [exampleCluster1]"
  "selectedFields examplePrior = [''clusterName'', ''name'', ''powerState'', ''uuid'']"
  "length (requests examplePrior) = 1"
  by (simp_all add: examplePrior_def toggleField_def loadData_resolved_def setCategory_def
      categoryEffect_def autoFetchEffect_def loadData_def setRatio_def setAggregationType_def
      setInterval_def initial_state_def exampleTarget_def Let_def)

theorem setCategory_effect_witness:
  "(let s' = setCategory exampleTarget exampleTz 14400000 Performance examplePrior in
      category s' = Performance \<and> selectedFields s' = DEFAULT_FIELDS Performance \<and>
      data s' = [] \<and> startTime s' = ''2026-01-05T03:00'' \<and> endTime s' = ''2026-01-05T04:00'' \<and>
      interval s' = 30 \<and> aggregationType s' = Max \<and> ratio s' = 5 \<and>
      requests s' = requests examplePrior \<and>
      autoFetchEffect exampleTarget (setInterval 45 s') = setInterval 45 s') \<and>
   (let s' = setCategory exampleTarget exampleTz 14400000 Resources examplePrior in
      category s' = Resources \<and> selectedFields s' = DEFAULT_FIELDS Resources \<and>
      data s' = [] \<and> ratio s' = 5 \<and> rf s' = 2 \<and> interval s' = 60 \<and>
      aggregationType s' = Max \<and> requests s' = requests examplePrior \<and>
      autoFetchEffect exampleTarget (setRatio 7 s') = setRatio 7 s') \<and>
   selectedFields examplePrior \<noteq> DEFAULT_FIELDS Performance \<and> data examplePrior \<noteq> [] \<and>
   interval examplePrior = 60 \<and> length (requests examplePrior) = 1"
proof -
  have start: "formatDateTime (exampleTz (14400000 - 3600000)) = ''2026-01-05T03:00''"
    by code_simp
  have finish: "formatDateTime (exampleTz 14400000) = ''2026-01-05T04:00''"
    by code_simp
  have p: "Performance \<noteq> category examplePrior" and r: "Resources \<noteq> category examplePrior"
    by (simp_all add: examplePrior_fields)
  note P = setCategory_effect [OF p, of exampleTarget exampleTz 14400000]
  note R = setCategory_effect [OF r, of exampleTarget exampleTz 14400000]
  have cp: "category (setInterval 45
      (setCategory exampleTarget exampleTz 14400000 Performance examplePrior)) = Performance"
    using P by (simp add: Let_def setInterval_def)
  have cr: "category (setRatio 7
      (setCategory exampleTarget exampleTz 14400000 Resources examplePrior)) = Resources"
    using R by (simp add: Let_def setRatio_def)
  have ap: "autoFetchEffect exampleTarget
      (setInterval 45 (setCategory exampleTarget exampleTz 14400000 Performance examplePrior)) =
      setInterval 45 (setCategory exampleTarget exampleTz 14400000 Performance examplePrior)"
    using P cp by (simp add: Let_def)
  have ar: "autoFetchEffect exampleTarget
      (setRatio 7 (setCategory exampleTarget exampleTz 14400000 Resources examplePrior)) =
      setRatio 7 (setCategory exampleTarget exampleTz 14400000 Resources examplePrior)"
    using R cr by (simp add: Let_def)
  show ?thesis
    using P R start finish ap ar
    by (simp add: Let_def examplePrior_fields)
qed

text \<open>
  The claim as stated fails for a prior state in which the user had chosen other
  parameters: after choosing the aggregation \<open>max\<close> under Performance and leaving the
  category, coming back to Performance leaves \<open>max\<close>; after choosing ratio 5 under
  Resources and leaving, coming back leaves 5.
\<close>

theorem setCategory_seed_counterexample:
  "(let s0 = setCategory exampleTarget exampleTz 7200000 VM
               (setAggregationType Max
                  (setCategory exampleTarget exampleTz 3600000 Performance initial_state))
    in aggregationType (setCategory exampleTarget exampleTz 9000000 Performance s0) \<noteq> Average) \<and>
   (let s0 = setCategory exampleTarget exampleTz 7200000 VM
               (setRatio 5 (setCategory exampleTarget exampleTz 3600000 Resources initial_state))
    in ratio (setCategory exampleTarget exampleTz 9000000 Resources s0) \<noteq> 3)"
  by (simp add: setCategory_def categoryEffect_def autoFetchEffect_def loadData_def Let_def
      initial_state_def setAggregationType_def setRatio_def exampleTarget_def)

subsection \<open>Expansion and visible rows\<close>

lemma rowHidden_iff:
  "rowHidden Performance E row \<longleftrightarrow>
     row ''entityType'' = Some (JString ''host'') \<and> truthy (row ''parentCluster'') \<and>
     \<not> has E (row ''parentCluster'')"
  by (simp add: rowHidden_def isHostRow_def Let_def)

text \<open>
  C5, as the code has it. For a Performance result the visible rows are the rows in
  their input order without the hidden ones, and a row is hidden only if it is a host
  row whose parent is given and is not expanded. So every row that is not a host row
  (a cluster row, a row with no entity kind) is visible; a host row with a non-empty
  parent name is visible if and only if that name is expanded; and a host row whose
  parent is missing or empty is always visible. \<open>toggleClusterExpansion\<close> flips the
  membership of the name it is given and of no other.
\<close>

theorem visibleRows_expansion:
  "visibleRows Performance E rows =
     filter (\<lambda>row. \<not> (row ''entityType'' = Some (JString ''host'') \<and>
                        truthy (row ''parentCluster'') \<and> \<not> has E (row ''parentCluster''))) rows \<and>
   (\<forall>row \<in> set rows. row ''entityType'' \<noteq> Some (JString ''host'') \<longrightarrow>
      row \<in> set (visibleRows Performance E rows)) \<and>
   (\<forall>row \<in> set rows. \<forall>p. row ''entityType'' = Some (JString ''host'') \<and>
      row ''parentCluster'' = Some (JString p) \<and> p \<noteq> [] \<longrightarrow>
      (row \<in> set (visibleRows Performance E rows) \<longleftrightarrow> p \<in> E)) \<and>
   (\<forall>row \<in> set rows. row ''entityType'' = Some (JString ''host'') \<and>
      \<not> truthy (row ''parentCluster'') \<longrightarrow> row \<in> set (visibleRows Performance E rows)) \<and>
   (\<forall>name. (name \<in> expandedClusters (toggleClusterExpansion name s)) = (name \<notin> expandedClusters s)) \<and>
   (\<forall>name other. other \<noteq> name \<longrightarrow>
      (other \<in> expandedClusters (toggleClusterExpansion name s)) = (other \<in> expandedClusters s))"
  by (auto simp: visibleRows_def rowHidden_iff toggleClusterExpansion_def)

theorem visibleRows_expansion_witness:
  "visibleRows Performance (expandedClusters initial_state) [exampleCluster1, exampleHost1]
     = [exampleCluster1] \<and>
   visibleRows Performance (expandedClusters (toggleClusterExpansion ''C1'' initial_state))
     [exampleCluster1, exampleHost1] = [exampleCluster1, exampleHost1] \<and>
   visibleRows Performance
     (expandedClusters (toggleClusterExpansion ''C1'' (toggleClusterExpansion ''C1'' initial_state)))
     [exampleCluster1, exampleHost1] = [exampleCluster1]"
  using visibleRows_expansion [of "{}" "[exampleCluster1, exampleHost1]" initial_state]
    visibleRows_expansion [of "{''C1''}" "[exampleCluster1, exampleHost1]" initial_state]
  by (simp add: toggleClusterExpansion_def initial_state_def exampleCluster1_def exampleHost1_def)

text \<open>
  The claim as stated fails for a host row that names no parent: it is visible although
  its parent is not a member of the expanded set.
\<close>

theorem visibleRows_orphan_host_counterexample:
  "exampleOrphanHost ''entityType'' = Some (JString ''host'') \<and>
   exampleOrphanHost \<in> set (visibleRows Performance {} [exampleOrphanHost]) \<and>
   \<not> has {} (exampleOrphanHost ''parentCluster'')"
  by (simp add: visibleRows_def rowHidden_iff exampleOrphanHost_def)

subsection \<open>The sort comparator\<close>

text \<open>
  C6. For every pair of rows \<open>a\<close>, \<open>b\<close>, every field and both directions: when \<open>a\<close>'s
  value is null or missing and \<open>b\<close> has one, the comparator is positive (\<open>a\<close> after
  \<open>b\<close>); when \<open>a\<close> has a value and \<open>b\<close>'s is null or missing, it is negative (\<open>b\<close>
  after \<open>a\<close>). When both values are numbers the result is their difference, so its sign
  is that of the numeric comparison. Otherwise both are rendered as text, lower-cased
  and compared by the locale. Descending order is ascending order with the two present
  values exchanged.
\<close>

theorem compare_missing_last:
  "(is_nullish (a f) \<and> \<not> is_nullish (b f) \<longrightarrow> 0 < compare rt f d a b) \<and>
   (\<not> is_nullish (a f) \<and> is_nullish (b f) \<longrightarrow> compare rt f d a b < 0) \<and>
   (a f = Some (JNumber x) \<and> b f = Some (JNumber y) \<longrightarrow>
      compare rt f Asc a b = x - y \<and> compare rt f Desc a b = y - x \<and>
      (compare rt f Asc a b < 0 \<longleftrightarrow> x < y) \<and> (compare rt f Desc a b < 0 \<longleftrightarrow> y < x)) \<and>
   (\<not> is_nullish (a f) \<and> \<not> is_nullish (b f) \<and>
    \<not> (\<exists>x y. a f = Some (JNumber x) \<and> b f = Some (JNumber y)) \<longrightarrow>
      compare rt f Asc a b =
        of_int (localeCompare rt (toLowerCase rt (String_of rt (a f)))
                                 (toLowerCase rt (String_of rt (b f)))) \<and>
      compare rt f Desc a b =
        of_int (localeCompare rt (toLowerCase rt (String_of rt (b f)))
                                 (toLowerCase rt (String_of rt (a f))))) \<and>
   (\<not> is_nullish (a f) \<and> \<not> is_nullish (b f) \<longrightarrow>
      compare rt f Desc a b = compare rt f Asc b a)"
  by (auto simp: compare_def Let_def split: option.splits js_value.splits)

theorem compare_missing_last_witness:
  "0 < compare exampleRuntime ''iops'' Asc Map.empty [''iops'' \<mapsto> JNumber 5] \<and>
   0 < compare exampleRuntime ''iops'' Desc Map.empty [''iops'' \<mapsto> JNumber 5] \<and>
   compare exampleRuntime ''iops'' Asc [''iops'' \<mapsto> JNumber 5] [''iops'' \<mapsto> JNull] < 0 \<and>
   compare exampleRuntime ''iops'' Desc [''iops'' \<mapsto> JNumber 5] [''iops'' \<mapsto> JNull] < 0 \<and>
   compare exampleRuntime ''iops'' Asc [''iops'' \<mapsto> JNumber 5] [''iops'' \<mapsto> JNumber 7] = - 2 \<and>
   compare exampleRuntime ''iops'' Desc [''iops'' \<mapsto> JNumber 5] [''iops'' \<mapsto> JNumber 7] = 2 \<and>
   compare exampleRuntime ''name'' Asc [''name'' \<mapsto> JString ''Abc'']
     [''name'' \<mapsto> JString ''abd''] = - 1 \<and>
   compare exampleRuntime ''name'' Desc [''name'' \<mapsto> JString ''Abc'']
     [''name'' \<mapsto> JString ''abd''] = 1"
  using compare_missing_last [of Map.empty "''iops''" "[''iops'' \<mapsto> JNumber 5]" exampleRuntime Asc 0 0]
    compare_missing_last [of Map.empty "''iops''" "[''iops'' \<mapsto> JNumber 5]" exampleRuntime Desc 0 0]
    compare_missing_last [of "[''iops'' \<mapsto> JNumber 5]" "''iops''" "[''iops'' \<mapsto> JNull]" exampleRuntime Asc 0 0]
    compare_missing_last [of "[''iops'' \<mapsto> JNumber 5]" "''iops''" "[''iops'' \<mapsto> JNull]" exampleRuntime Desc 0 0]
    compare_missing_last [of "[''iops'' \<mapsto> JNumber 5]" "''iops''" "[''iops'' \<mapsto> JNumber 7]" exampleRuntime Asc 5 7]
    compare_missing_last [of "[''name'' \<mapsto> JString ''Abc'']" "''name''"
      "[''name'' \<mapsto> JString ''abd'']" exampleRuntime Asc 0 0]
  by (simp add: exampleRuntime_def asciiLower_def)

subsection \<open>Loading the presets\<close>

text \<open>
  C3. An absent store leaves the presets as they are (empty at first use). For stored
  text that \<^verbatim>\<open>JSON.parse\<close> rejects, the mount effect has no handler: the
  \<^verbatim>\<open>SyntaxError\<close> leaves the effect, and no notice is produced. Text that parses
  becomes the presets unchecked, whatever its shape.
\<close>

theorem presetsLoadEffect_malformed:
  "presetsLoadEffect JSON_parse None current = Inr current \<and>
   (text \<noteq> [] \<and> JSON_parse text = None \<longrightarrow>
      presetsLoadEffect JSON_parse (Some text) current = Inl SyntaxError) \<and>
   (text \<noteq> [] \<and> JSON_parse text = Some v \<longrightarrow>
      presetsLoadEffect JSON_parse (Some text) current = Inr v)"
  by (simp add: presetsLoadEffect_def)

theorem presetsLoadEffect_malformed_witness:
  "presetsLoadEffect exampleParse None (JsonArr []) = Inr (JsonArr []) \<and>
   presetsLoadEffect exampleParse (Some ''{oops'') (JsonArr []) = Inl SyntaxError \<and>
   presetsLoadEffect exampleParse (Some ''{}'') (JsonArr []) = Inr (JsonObj [])"
  using presetsLoadEffect_malformed [of exampleParse "JsonArr []" "''{oops''" "JsonObj []"]
    presetsLoadEffect_malformed [of exampleParse "JsonArr []" "''{}''" "JsonObj []"]
  by (simp add: exampleParse_def)

subsection \<open>Export\<close>

text \<open>
  C8. For every Resources result set that is not empty, whatever columns the user has
  selected, the export request is tagged \<open>isResources\<close> and carries two tables: the
  rows whose \<open>table\<close> is CPU and the rows whose \<open>table\<close> is Memory, each in the order
  of the result set and no row in both, each with its fixed list of columns and labels.
  Changing the column selection does not change the request.
\<close>

theorem exportToXLSX_resources:
  assumes "category s = Resources" and "data s \<noteq> []"
  shows "\<exists>body part.
           exportToXLSX rt cluster isoDate s = Some body \<and> body_resources body = Some part \<and>
           isResources part \<and>
           cpuData part = filter (\<lambda>row. row ''table'' = Some (JString ''CPU'')) (data s) \<and>
           memoryData part = filter (\<lambda>row. row ''table'' = Some (JString ''Memory'')) (data s) \<and>
           set (cpuData part) \<inter> set (memoryData part) = {} \<and>
           body_data body = cpuData part @ memoryData part \<and>
           cpuFields part =
             [''hostName'', ''vmCount'', ''numaOver'', ''pCore'', ''useVCore'',
              ''recommendVcoreRatio'', ''currentVcoreRatio'', ''result''] \<and>
           memoryFields part =
             [''hostName'', ''vmCount'', ''numaOver'', ''memoryGiB'', ''useMemoryGiB'',
              ''recommendUse'', ''availableMemory'', ''result''] \<and>
           cpuFieldLabels part = CPU_FIELD_LABELS \<and>
           memoryFieldLabels part = MEMORY_FIELD_LABELS \<and>
           (\<forall>selected. exportToXLSX rt cluster isoDate (s\<lparr>selectedFields := selected\<rparr>) = Some body)"
  using assms
  by (auto simp: exportToXLSX_def Let_def CPU_FIELDS_def MEMORY_FIELDS_def)

theorem exportToXLSX_resources_witness:
  "exportToXLSX exampleRuntime exampleTarget ''2026-01-05''
     (initial_state\<lparr>category := Resources, selectedFields := [''metric1''],
                     data := [exampleMemoryRow, exampleCpuRow]\<rparr>) =
   Some \<lparr>body_data = [exampleCpuRow, exampleMemoryRow], body_fields = CPU_FIELDS,
          body_fieldLabels = CPU_FIELD_LABELS, body_filename = ''prod_Resources_2026-01-05'',
          body_resources =
            Some \<lparr>isResources = True, cpuData = [exampleCpuRow], memoryData = [exampleMemoryRow],
                   cpuFields = CPU_FIELDS, memoryFields = MEMORY_FIELDS,
                   cpuFieldLabels = CPU_FIELD_LABELS, memoryFieldLabels = MEMORY_FIELD_LABELS\<rparr>\<rparr>"
  using exportToXLSX_resources [of "initial_state\<lparr>category := Resources,
      selectedFields := [''metric1''], data := [exampleMemoryRow, exampleCpuRow]\<rparr>"
      exampleRuntime exampleTarget "''2026-01-05''"]
  by (simp add: exampleCpuRow_def exampleMemoryRow_def initial_state_def Let_def
      exportToXLSX_def actualClusterName_def exampleTarget_def)

text \<open>
  C10. The export request does not depend on the sort field, the sort direction or the
  set of expanded entities. For a category other than Resources and a result set that
  is not empty its rows are the result set itself, every row in fetch order (collapsed
  host rows included); for an empty result set no request is sent.
\<close>

theorem exportToXLSX_fetch_order:
  "exportToXLSX rt cluster isoDate (s\<lparr>sortField := f, sortDirection := d, expandedClusters := E\<rparr>)
     = exportToXLSX rt cluster isoDate s \<and>
   (category s \<noteq> Resources \<and> data s \<noteq> [] \<longrightarrow>
      (\<exists>body. exportToXLSX rt cluster isoDate s = Some body \<and> body_data body = data s \<and>
              body_resources body = None)) \<and>
   (data s = [] \<longrightarrow> exportToXLSX rt cluster isoDate s = None)"
  by (simp add: exportToXLSX_def Let_def)


theorem exportToXLSX_fetch_order_witness:
  "map_option body_data
     (exportToXLSX exampleRuntime exampleTarget ''2026-01-05''
        (initial_state\<lparr>category := Performance, data := [exampleCluster1, exampleHost1],
                        sortField := Some ''entityName'', sortDirection := Desc\<rparr>))
     = Some [exampleCluster1, exampleHost1] \<and>
   map_option body_data
     (exportToXLSX exampleRuntime exampleTarget ''2026-01-05''
        (initial_state\<lparr>category := Performance, data := [exampleCluster1, exampleHost1]\<rparr>))
     = Some [exampleCluster1, exampleHost1] \<and>
   sortedData exampleRuntime
     (initial_state\<lparr>category := Performance, data := [exampleCluster1, exampleHost1],
                     sortField := Some ''entityName'', sortDirection := Desc\<rparr>)
     = [exampleHost1, exampleCluster1] \<and>
   visibleRows Performance {} [exampleHost1, exampleCluster1] = [exampleCluster1]"
  using exportToXLSX_fetch_order [where rt = exampleRuntime and cluster = exampleTarget
      and isoDate = "''2026-01-05''" and f = "Some ''entityName''" and d = Desc and E = "{}"
      and s = "initial_state\<lparr>category := Performance, data := [exampleCluster1, exampleHost1]\<rparr>"]
  by (auto simp: initial_state_def sortedData_def exampleRuntime_def compare_def asciiLower_def
      visibleRows_def rowHidden_def isHostRow_def exampleCluster1_def exampleHost1_def Let_def)

subsection \<open>The batch\<close>

lemma attempts_Cons:
  "attempts env i (p # ps) = clusterOfPreset (batchId env i) p # attempts env (Suc i) ps"
  by (simp add: attempts_def)

lemma attempts_Nil: "attempts env i [] = []"
  by (simp add: attempts_def)

lemma length_attempts: "length (attempts env i ps) = length ps"
  by (simp add: attempts_def)

lemma cluster_ip_clusterOfPreset: "cluster_ip (clusterOfPreset tempId p) = preset_ip p"
  by (simp add: clusterOfPreset_def)

lemma connectLoop_eq:
  "connectLoop env i ps (s, successList, failureList) =
     (s\<lparr>clusters := clusters s @ map (finalCluster env) (filter (succeeded env) (attempts env i ps)),
        verifyCalls := verifyCalls s @ attempts env i ps\<rparr>,
      successList @ map cluster_ip (filter (succeeded env) (attempts env i ps)),
      failureList @ map (failureOf env) (filter (\<lambda>c. \<not> succeeded env c) (attempts env i ps)))"
proof (induction ps arbitrary: i s successList failureList)
  case Nil
  show ?case by (simp add: attempts_Nil)
next
  case (Cons p ps)
  show ?case
  proof (cases "verifyClusterConnection env (clusterOfPreset (batchId env i) p)")
    case (Inl message)
    then show ?thesis
      by (simp add: Cons.IH attempts_Cons succeeded_def failureOf_def cluster_ip_clusterOfPreset
          Let_def)
  next
    case (Inr clusterName)
    then show ?thesis
      by (simp add: Cons.IH attempts_Cons succeeded_def finalCluster_def
          cluster_ip_clusterOfPreset Let_def)
  qed
qed

lemma decimalValue_nat_to_string: "decimalValue (nat_to_string n) = n"
proof (induction n rule: nat_to_string.induct)
  case (1 n)
  show ?case
  proof (cases "n < 10")
    case True
    then show ?thesis
      by (simp add: nat_to_string.simps [of n] decimalValue_def)
  next
    case False
    then have "decimalValue (nat_to_string (n div 10)) = n div 10"
      using "1.IH" by simp
    moreover have "n mod 10 < 10" by simp
    ultimately show ?thesis
      using False
      by (simp add: nat_to_string.simps [of n] decimalValue_def)
  qed
qed

lemma join_infix: "x \<in> set xs \<Longrightarrow> \<exists>pre post. join sep xs = pre @ x @ post"
proof (induction sep xs rule: join.induct)
  case (1 sep)
  then show ?case by simp
next
  case (2 sep y)
  then have "join sep [y] = [] @ x @ []" by simp
  then show ?case by blast
next
  case (3 sep y z zs)
  show ?case
  proof (cases "x = y")
    case True
    then have "join sep (y # z # zs) = [] @ x @ (sep @ join sep (z # zs))" by simp
    then show ?thesis by blast
  next
    case False
    with 3 obtain pre post where "join sep (z # zs) = pre @ x @ post" by auto
    then have "join sep (y # z # zs) = (y @ sep @ pre) @ x @ post" by simp
    then show ?thesis by blast
  qed
qed

lemma connectSelectedPresets_closed:
  assumes "candidates s \<noteq> []"
  shows "connectSelectedPresets env s =
           (let tried = attempts env 0 (candidates s);
                ok = filter (succeeded env) tried;
                bad = filter (\<lambda>c. \<not> succeeded env c) tried;
                s2 = s\<lparr>clusters := clusters s @ map (finalCluster env) ok,
                       verifyCalls := verifyCalls s @ tried, verifying := False,
                       errorMsg := None\<rparr>
            in if bad \<noteq> []
               then s2\<lparr>errorMsg := Some (batchReport (map cluster_ip ok) (map (failureOf env) bad))\<rparr>
               else s2\<lparr>selectedPresets := {}, isModalOpen := False, newCluster := resetForm\<rparr>)"
  using assms
  by (simp add: connectSelectedPresets_def candidates_def [symmetric] connectLoop_eq Let_def)

lemma filter_split_length:
  "length (filter P xs) + length (filter (\<lambda>c. \<not> P c) xs) = length xs"
  by (induction xs) simp_all

lemma batchReport_text:
  "batchReport (map cluster_ip ok) (map (failureOf env) bad) =
     ''Successfully connected: '' @ nat_to_string (length ok) @ [CHR 0x0A, CHR 0x0A] @
     ''Failed connections:'' @ [CHR 0x0A] @
     join [CHR 0x0A]
       (map (\<lambda>c. [CHR 0xE2, CHR 0x80, CHR 0xA2] @ '' '' @ cluster_ip c @ '': '' @
                  (case verifyClusterConnection env c of
                     Inl message \<Rightarrow> (if message \<noteq> [] then message else ''Connection failed'')
                   | Inr clusterName \<Rightarrow> [])) bad)"
  by (simp add: batchReport_def failureLine_def failureOf_def bullet_def o_def)

lemma batchReport_line:
  assumes "c \<in> set bad" and "verifyClusterConnection env c = Inl message"
  shows "\<exists>pre post.
           batchReport (map cluster_ip ok) (map (failureOf env) bad) =
             pre @ [CHR 0xE2, CHR 0x80, CHR 0xA2] @ '' '' @ cluster_ip c @ '': '' @
             (if message \<noteq> [] then message else ''Connection failed'') @ post"
proof -
  let ?line = "\<lambda>c. [CHR 0xE2, CHR 0x80, CHR 0xA2] @ '' '' @ cluster_ip c @ '': '' @
                  (case verifyClusterConnection env c of
                     Inl message \<Rightarrow> (if message \<noteq> [] then message else ''Connection failed'')
                   | Inr clusterName \<Rightarrow> [])"
  have "?line c \<in> set (map ?line bad)"
    using assms(1) by (rule imageI [of c "set bad" ?line, unfolded set_map [symmetric]])
  then obtain pre post where "join [CHR 0x0A] (map ?line bad) = pre @ ?line c @ post"
    using join_infix by blast
  then have "batchReport (map cluster_ip ok) (map (failureOf env) bad) =
      (''Successfully connected: '' @ nat_to_string (length ok) @ [CHR 0x0A, CHR 0x0A] @
       ''Failed connections:'' @ [CHR 0x0A] @ pre) @
      [CHR 0xE2, CHR 0x80, CHR 0xA2] @ '' '' @ cluster_ip c @ '': '' @
      (if message \<noteq> [] then message else ''Connection failed'') @ post"
    using assms(2) by (simp add: batchReport_text)
  then show ?thesis by blast
qed

lemma not_succeeded_Inl:
  "\<not> succeeded env c \<Longrightarrow> \<exists>message. verifyClusterConnection env c = Inl message"
  by (cases "verifyClusterConnection env c") (simp_all add: succeeded_def)

text \<open>
  C7. A batch with at least one candidate passes every candidate to the verification
  service, whatever the outcomes of the others, and adds the cluster of every accepted
  candidate to the connection set, each in the round that tried it (the connection set
  after \<open>k\<close> rounds holds the clusters accepted in them). If a candidate failed, the
  error message is the report: the words "Successfully connected: " and the number of
  accepted candidates in decimal, then under "Failed connections:" one line for each
  refused candidate, in order, with its address and the reason the service gave (or
  "Connection failed" when it gave none); and the selection, the form and the dialog
  stay as they were. If none failed, the selection is cleared, the form reset and the
  dialog closed.
\<close>

theorem connectSelectedPresets_report:
  assumes "candidates s \<noteq> []"
  shows "(let tried = attempts env 0 (candidates s);
              ok = filter (succeeded env) tried;
              bad = filter (\<lambda>c. \<not> succeeded env c) tried;
              s' = connectSelectedPresets env s
          in verifyCalls s' = verifyCalls s @ tried \<and>
             length tried = length (candidates s) \<and>
             length ok + length bad = length (candidates s) \<and>
             clusters s' = clusters s @ map (finalCluster env) ok \<and>
             verifying s' = False \<and>
             (bad \<noteq> [] \<longrightarrow>
                errorMsg s' = Some (batchReport (map cluster_ip ok) (map (failureOf env) bad)) \<and>
                errorMsg s' =
                  Some (''Successfully connected: '' @ nat_to_string (length ok) @
                        [CHR 0x0A, CHR 0x0A] @ ''Failed connections:'' @ [CHR 0x0A] @
                        join [CHR 0x0A]
                          (map (\<lambda>c. [CHR 0xE2, CHR 0x80, CHR 0xA2] @ '' '' @ cluster_ip c @ '': '' @
                                     (case verifyClusterConnection env c of
                                        Inl message \<Rightarrow>
                                          (if message \<noteq> [] then message else ''Connection failed'')
                                      | Inr clusterName \<Rightarrow> [])) bad)) \<and>
                decimalValue (nat_to_string (length ok)) = length ok \<and>
                (\<forall>c \<in> set bad. \<exists>message pre post.
                   verifyClusterConnection env c = Inl message \<and>
                   errorMsg s' =
                     Some (pre @ [CHR 0xE2, CHR 0x80, CHR 0xA2] @ '' '' @ cluster_ip c @ '': '' @
                           (if message \<noteq> [] then message else ''Connection failed'') @ post)) \<and>
                selectedPresets s' = selectedPresets s \<and> isModalOpen s' = isModalOpen s \<and>
                newCluster s' = newCluster s) \<and>
             (bad = [] \<longrightarrow>
                errorMsg s' = None \<and> selectedPresets s' = {} \<and> isModalOpen s' = False \<and>
                newCluster s' = resetForm)) \<and>
         (\<forall>k \<le> length (candidates s).
            clusters (fst (connectLoop env 0 (take k (candidates s))
                             (s\<lparr>verifying := True, errorMsg := None\<rparr>, [], []))) =
              clusters s @ map (finalCluster env)
                (filter (succeeded env) (attempts env 0 (take k (candidates s)))))"
proof -
  let ?tried = "attempts env 0 (candidates s)"
  let ?ok = "filter (succeeded env) ?tried"
  let ?bad = "filter (\<lambda>c. \<not> succeeded env c) ?tried"
  have lines: "\<forall>c \<in> set ?bad. \<exists>message pre post.
      verifyClusterConnection env c = Inl message \<and>
      Some (batchReport (map cluster_ip ?ok) (map (failureOf env) ?bad)) =
        Some (pre @ [CHR 0xE2, CHR 0x80, CHR 0xA2] @ '' '' @ cluster_ip c @ '': '' @
              (if message \<noteq> [] then message else ''Connection failed'') @ post)"
  proof
    fix c
    assume c: "c \<in> set ?bad"
    then have "\<not> succeeded env c" by simp
    then obtain message where m: "verifyClusterConnection env c = Inl message"
      using not_succeeded_Inl by blast
    from batchReport_line [OF c m, of ?ok] m
    show "\<exists>message pre post.
      verifyClusterConnection env c = Inl message \<and>
      Some (batchReport (map cluster_ip ?ok) (map (failureOf env) ?bad)) =
        Some (pre @ [CHR 0xE2, CHR 0x80, CHR 0xA2] @ '' '' @ cluster_ip c @ '': '' @
              (if message \<noteq> [] then message else ''Connection failed'') @ post)"
      by blast
  qed
  have report: "batchReport (map cluster_ip ?ok) (map (failureOf env) ?bad) =
     ''Successfully connected: '' @ nat_to_string (length ?ok) @ [CHR 0x0A, CHR 0x0A] @
     ''Failed connections:'' @ [CHR 0x0A] @
     join [CHR 0x0A]
       (map (\<lambda>c. [CHR 0xE2, CHR 0x80, CHR 0xA2] @ '' '' @ cluster_ip c @ '': '' @
                  (case verifyClusterConnection env c of
                     Inl message \<Rightarrow> (if message \<noteq> [] then message else ''Connection failed'')
                   | Inr clusterName \<Rightarrow> [])) ?bad)"
    by (rule batchReport_text)
  have state: "?bad \<noteq> [] \<Longrightarrow>
      connectSelectedPresets env s =
        s\<lparr>clusters := clusters s @ map (finalCluster env) ?ok,
          verifyCalls := verifyCalls s @ ?tried, verifying := False,
          errorMsg := Some (batchReport (map cluster_ip ?ok) (map (failureOf env) ?bad))\<rparr>"
    "?bad = [] \<Longrightarrow>
      connectSelectedPresets env s =
        s\<lparr>clusters := clusters s @ map (finalCluster env) ?ok,
          verifyCalls := verifyCalls s @ ?tried, verifying := False,
          errorMsg := None, selectedPresets := {}, isModalOpen := False,
          newCluster := resetForm\<rparr>"
    using connectSelectedPresets_closed [OF assms, of env] by (simp_all add: Let_def)
  have rounds: "\<forall>k \<le> length (candidates s).
            clusters (fst (connectLoop env 0 (take k (candidates s))
                             (s\<lparr>verifying := True, errorMsg := None\<rparr>, [], []))) =
              clusters s @ map (finalCluster env)
                (filter (succeeded env) (attempts env 0 (take k (candidates s))))"
    by (simp add: connectLoop_eq)
  show ?thesis
  proof (cases "?bad = []")
    case True
    then show ?thesis
      using state(2) [OF True] rounds filter_split_length [of "succeeded env" ?tried]
      by (simp add: Let_def length_attempts)
  next
    case False
    have "errorMsg (connectSelectedPresets env s) =
            Some (batchReport (map cluster_ip ?ok) (map (failureOf env) ?bad))"
      using state(1) [OF False] by simp
    with lines report show ?thesis
      using state(1) [OF False] False rounds filter_split_length [of "succeeded env" ?tried]
      by (simp add: Let_def length_attempts decimalValue_nat_to_string)
  qed
qed

lemma exampleManager_candidates:
  "candidates exampleManager =
     [examplePreset ''a'' ''10.0.0.1'' (Some V2_0), examplePreset ''b'' ''10.0.0.2'' None,
      examplePreset ''c'' ''10.0.0.3'' (Some V4_0)]"
  by (simp add: candidates_def exampleManager_def examplePreset_def)

lemma exampleManager_attempts:
  "attempts exampleEnv 0 (candidates exampleManager) =
     [clusterOfPreset ''1700000000000_0.11'' (examplePreset ''a'' ''10.0.0.1'' (Some V2_0)),
      clusterOfPreset ''1700000000001_0.52'' (examplePreset ''b'' ''10.0.0.2'' None),
      clusterOfPreset ''1700000000002_0.93'' (examplePreset ''c'' ''10.0.0.3'' (Some V4_0))]"
  by (simp add: exampleManager_candidates attempts_Cons attempts_Nil exampleEnv_def)

lemma exampleEnv_verify:
  "verifyClusterConnection exampleEnv c =
     (if cluster_ip c = ''10.0.0.2'' then Inl ''timeout'' else Inr (''cl-'' @ cluster_ip c))"
  by (simp add: exampleEnv_def)

theorem connectSelectedPresets_report_witness:
  "(let s' = connectSelectedPresets exampleEnv exampleManager
    in map cluster_ip (verifyCalls s') = [''10.0.0.1'', ''10.0.0.2'', ''10.0.0.3''] \<and>
       map cluster_ip (clusters s') = [''10.0.0.1'', ''10.0.0.3''] \<and>
       map cluster_name (clusters s') = [''cl-10.0.0.1'', ''cl-10.0.0.3''] \<and>
       map cluster_isVerified (clusters s') = [True, True] \<and>
       errorMsg s' =
         Some (''Successfully connected: 2'' @ [CHR 0x0A, CHR 0x0A] @ ''Failed connections:'' @
               [CHR 0x0A] @ bullet @ '' 10.0.0.2: timeout'') \<and>
       selectedPresets s' = {''a'', ''b'', ''c''} \<and> isModalOpen s' = True)"
proof -
  have ne: "candidates exampleManager \<noteq> []"
    by (simp add: exampleManager_candidates)
  have sel: "selectedPresets exampleManager = {''a'', ''b'', ''c''}"
    "isModalOpen exampleManager = True" "clusters exampleManager = []"
    "verifyCalls exampleManager = []"
    by (simp_all add: exampleManager_def)
  have two: "nat_to_string (Suc (Suc 0)) = ''2''"
    by code_simp
  show ?thesis
    using connectSelectedPresets_report [OF ne, of exampleEnv]
    by (simp add: Let_def exampleManager_attempts sel succeeded_def finalCluster_def failureOf_def
        clusterOfPreset_def examplePreset_def exampleEnv_verify batchReport_def failureLine_def
        two)
qed


text \<open>
  C9. With two or more presets selected, \<open>handleAddCluster\<close> is the batch: every
  candidate, with the API version of its preset (4.0 included), is passed to the
  verification service and no alert is raised. The version gate is on the single-target
  path only: there a filled-in form for version 4.0 raises the alert and nothing is
  passed to the service.
\<close>

theorem batch_path_has_no_version_gate:
  "(2 \<le> card (selectedPresets s) \<longrightarrow>
      handleAddCluster env s = connectSelectedPresets env s \<and>
      verifyCalls (handleAddCluster env s) = verifyCalls s @ attempts env 0 (candidates s) \<and>
      manager_alerts (handleAddCluster env s) = manager_alerts s \<and>
      (\<forall>p \<in> set (candidates s).
         \<exists>c \<in> set (verifyCalls (handleAddCluster env s)).
           cluster_ip c = preset_ip p \<and> cluster_username c = preset_username p \<and>
           cluster_password c = preset_password p \<and>
           cluster_apiVersion c = (case preset_apiVersion p of None \<Rightarrow> V2_0 | Some v \<Rightarrow> v))) \<and>
   (card (selectedPresets s) < 2 \<and> form_ip (newCluster s) \<noteq> [] \<and>
    form_username (newCluster s) \<noteq> [] \<and> form_password (newCluster s) \<noteq> [] \<and>
    form_apiVersion (newCluster s) = Some V4_0 \<longrightarrow>
      verifyCalls (handleAddCluster env s) = verifyCalls s \<and>
      clusters (handleAddCluster env s) = clusters s \<and>
      manager_alerts (handleAddCluster env s) = manager_alerts s @ [''We are planning to update.''])"
proof -
  have calls: "verifyCalls (connectSelectedPresets env s) = verifyCalls s @ attempts env 0 (candidates s)"
    by (simp add: connectSelectedPresets_def candidates_def [symmetric] connectLoop_eq Let_def
        attempts_Nil)
  have alerts: "manager_alerts (connectSelectedPresets env s) = manager_alerts s"
    by (simp add: connectSelectedPresets_def connectLoop_eq Let_def)
  have each: "\<exists>c \<in> set (attempts env i ps).
               cluster_ip c = preset_ip p \<and> cluster_username c = preset_username p \<and>
               cluster_password c = preset_password p \<and>
               cluster_apiVersion c = (case preset_apiVersion p of None \<Rightarrow> V2_0 | Some v \<Rightarrow> v)"
    if "p \<in> set ps" for p ps i
    using that
    by (induction ps arbitrary: i) (auto simp: attempts_Cons clusterOfPreset_def)
  show ?thesis
    using calls alerts each [of _ "candidates s" 0]
    by (auto simp: handleAddCluster_def)
qed

theorem batch_path_has_no_version_gate_witness:
  "map cluster_apiVersion (verifyCalls (handleAddCluster exampleEnv exampleManager))
     = [V2_0, V2_0, V4_0] \<and>
   map cluster_ip (verifyCalls (handleAddCluster exampleEnv exampleManager))
     = [''10.0.0.1'', ''10.0.0.2'', ''10.0.0.3''] \<and>
   manager_alerts (handleAddCluster exampleEnv exampleManager) = [] \<and>
   verifyCalls (handleAddCluster exampleEnv exampleSingle) = [] \<and>
   manager_alerts (handleAddCluster exampleEnv exampleSingle) = [''We are planning to update.'']"
proof -
  have many: "2 \<le> card (selectedPresets exampleManager)"
    by (simp add: exampleManager_def)
  have one: "card (selectedPresets exampleSingle) < 2"
    by (simp add: exampleSingle_def)
  have form: "newCluster exampleSingle =
      \<lparr>form_ip = ''10.0.0.3'', form_username = ''admin'', form_password = ''pw'',
       form_type = PE, form_apiVersion = Some V4_0\<rparr>"
    "verifyCalls exampleSingle = []" "manager_alerts exampleSingle = []"
    "verifyCalls exampleManager = []" "manager_alerts exampleManager = []"
    by (simp_all add: exampleSingle_def exampleManager_def)
  have batch:
    "verifyCalls (handleAddCluster exampleEnv exampleManager) =
       verifyCalls exampleManager @ attempts exampleEnv 0 (candidates exampleManager)"
    "manager_alerts (handleAddCluster exampleEnv exampleManager) = manager_alerts exampleManager"
    using batch_path_has_no_version_gate [of exampleManager exampleEnv] many by blast+
  have single:
    "verifyCalls (handleAddCluster exampleEnv exampleSingle) = verifyCalls exampleSingle"
    "manager_alerts (handleAddCluster exampleEnv exampleSingle) =
       manager_alerts exampleSingle @ [''We are planning to update.'']"
    using batch_path_has_no_version_gate [of exampleSingle exampleEnv] one by (simp_all add: form)
  show ?thesis
    by (simp add: batch single form exampleManager_attempts clusterOfPreset_def examplePreset_def)
qed

end
